theory Spec2Isabelle
  imports Complex_Main
begin

section \<open>Strings of the request layer\<close>

text \<open>
  Strings are byte lists. \<open>String.prototype.trim\<close> is modelled on the ASCII white space
  characters (space, tab, line feed, vertical tab, form feed, carriage return); the
  schema option \<open>trim: true\<close> uses the same function.
\<close>

definition is_space :: "char \<Rightarrow> bool" where
  "is_space c \<longleftrightarrow> c \<in> set [CHR '' '', CHR 0x09, CHR 0x0A, CHR 0x0B, CHR 0x0C, CHR 0x0D]"

definition trim :: "string \<Rightarrow> string" where
  "trim s = rev (dropWhile is_space (rev (dropWhile is_space s)))"

text \<open>The decimal rendering of a counter inside a template literal, \<open>`${counter}`\<close>.\<close>

definition digit :: "nat \<Rightarrow> char" where
  "digit d = char_of (48 + d)"

fun decimal :: "nat \<Rightarrow> string" where
  "decimal n = (if n < 10 then [digit n] else decimal (n div 10) @ [digit (n mod 10)])"

declare decimal.simps [simp del]

text \<open>The candidate \<open>`${barcode}(${counter})`\<close> of the duplicate and transfer routes.\<close>

definition suffixed :: "string \<Rightarrow> nat \<Rightarrow> string" where
  "suffixed b counter = b @ ''('' @ decimal counter @ '')''"

text \<open>JavaScript truthiness of an optional string, and the idiom \<open>x || d\<close>.\<close>

definition falsy :: "string option \<Rightarrow> bool" where
  "falsy x \<longleftrightarrow> x = None \<or> x = Some []"

definition or_else :: "string option \<Rightarrow> string \<Rightarrow> string" where
  "or_else x d = (case x of None \<Rightarrow> d | Some s \<Rightarrow> if s = [] then d else s)"

section \<open>Documents\<close>

text \<open>
  The sub-document schema \<open>stockHistorySchema\<close> and the schema \<open>productSchema\<close> that
  \<open>registerModels\<close> binds to every company connection. Quantities and the stock counter
  are JavaScript numbers that the routes only ever produce with \<open>parseInt\<close>, addition and
  subtraction; they are modelled as integers, which is exact below \<open>2^53\<close>. Prices are
  modelled as reals. The time stamps \<open>createdAt\<close> and \<open>updatedAt\<close> are left out.
\<close>

datatype movement_type = Add | Remove

record stock_movement =
  quantity :: int
  mtype :: movement_type
  mnote :: string
  supplier :: string
  location :: string
  addedBy :: nat
  addedByName :: string

record product =
  barcode :: string
  name :: string
  currentStock :: int
  pnote :: string
  buyingPrice :: real
  sellingPrice :: real
  boughtFrom :: string
  sellLocation :: string
  imageUrl :: string
  unit :: string
  category :: "nat option"
  categoryName :: string
  stockHistory :: "stock_movement list"
  createdBy :: "nat option"
  createdByName :: "string option"

record company_access =
  companySlug :: string
  accessRole :: string

record user =
  user_id :: nat
  username :: string
  fullName :: string
  isSuperAdmin :: bool
  companyAccess :: "company_access list option"

text \<open>
  A company database: its product collection and its category collection (identifier and
  name of each category). The master database contributes the company documents, each a
  slug with its \<open>isActive\<close> flag.
\<close>

record tenant =
  products :: "product list"
  categories :: "(nat \<times> string) list"

record world =
  tenants :: "string \<Rightarrow> tenant"
  companies :: "(string \<times> bool) list"

definition empty_tenant :: tenant where
  "empty_tenant = \<lparr>products = [], categories = []\<rparr>"

section \<open>The product model: queries and saving\<close>

text \<open>
  Every awaited storage call can reject, which the routes catch in one \<open>catch\<close> block.
  A fault assignment says which call sites reject during one request.
\<close>

datatype db_call =
  ProductFindOne | CategoryFindById | CompanyFindOne | GetCompanyConnection
  | TargetFindOne | ProductSave | ProductDelete

type_synonym faults = "db_call \<Rightarrow> bool"

definition no_faults :: faults where
  "no_faults = (\<lambda>c. False)"

datatype db_error = StorageFailure | ValidationFailed | DuplicateKey

definition findOne :: "product list \<Rightarrow> string \<Rightarrow> product option" where
  "findOne ps b = find (\<lambda>p. barcode p = b) ps"

text \<open>The setters of the schema (\<open>trim: true\<close>) run when a field is assigned.\<close>

definition applySetters :: "product \<Rightarrow> product" where
  "applySetters p = p\<lparr>barcode := trim (barcode p), name := trim (name p),
     boughtFrom := trim (boughtFrom p), sellLocation := trim (sellLocation p),
     unit := trim (unit p)\<rparr>"

text \<open>The hook \<open>productSchema.pre('save')\<close>.\<close>

definition preSave :: "product \<Rightarrow> product" where
  "preSave p = (if unit p = [] then p\<lparr>unit := ''pcs''\<rparr> else p)"

text \<open>
  Validation of a new document checks every path: the required strings are non-empty and
  the paths with \<open>min: 0\<close> are non-negative. Validation of a loaded document checks the
  required paths and the paths that were modified.
\<close>

definition validateNew :: "product \<Rightarrow> bool" where
  "validateNew p \<longleftrightarrow> barcode p \<noteq> [] \<and> name p \<noteq> [] \<and> 0 \<le> currentStock p
     \<and> 0 \<le> buyingPrice p \<and> 0 \<le> sellingPrice p"

definition validateModified :: "product \<Rightarrow> product \<Rightarrow> bool" where
  "validateModified old p \<longleftrightarrow> barcode p \<noteq> [] \<and> name p \<noteq> []
     \<and> (currentStock p \<noteq> currentStock old \<longrightarrow> 0 \<le> currentStock p)
     \<and> (buyingPrice p \<noteq> buyingPrice old \<longrightarrow> 0 \<le> buyingPrice p)
     \<and> (sellingPrice p \<noteq> sellingPrice old \<longrightarrow> 0 \<le> sellingPrice p)"

text \<open>
  \<open>save()\<close> of a document made with \<open>new Product(...)\<close>: validation, the hook, then the
  insert, which the unique index on \<open>barcode\<close> refuses for a barcode already stored.
\<close>

definition saveNew :: "bool \<Rightarrow> product list \<Rightarrow> product \<Rightarrow> db_error + product list" where
  "saveNew rejects ps p =
     (if \<not> validateNew p then Inl ValidationFailed
      else if rejects then Inl StorageFailure
      else if findOne ps (barcode p) \<noteq> None then Inl DuplicateKey
      else Inr (ps @ [preSave p]))"

text \<open>
  \<open>save()\<close> of a document loaded by \<open>findOne\<close>: the stored document it was loaded from
  (the first with the barcode \<open>b\<close>) is replaced. A changed barcode must not collide with
  another stored document.
\<close>

fun replaceOne :: "product list \<Rightarrow> string \<Rightarrow> product \<Rightarrow> product list" where
  "replaceOne [] b p' = []"
| "replaceOne (p # ps) b p' = (if barcode p = b then p' # ps else p # replaceOne ps b p')"

definition saveLoaded ::
  "bool \<Rightarrow> product list \<Rightarrow> product \<Rightarrow> product \<Rightarrow> db_error + product list" where
  "saveLoaded rejects ps old p =
     (if \<not> validateModified old p then Inl ValidationFailed
      else if rejects then Inl StorageFailure
      else if barcode p \<noteq> barcode old \<and> findOne ps (barcode p) \<noteq> None then Inl DuplicateKey
      else Inr (replaceOne ps (barcode old) (preSave p)))"

text \<open>\<open>deleteOne({ barcode })\<close> removes the first document with that barcode, if any.\<close>

fun deleteOne :: "product list \<Rightarrow> string \<Rightarrow> product list" where
  "deleteOne [] b = []"
| "deleteOne (p # ps) b = (if barcode p = b then ps else p # deleteOne ps b)"

section \<open>Responses and request bodies\<close>

text \<open>
  A response is the HTTP status, the \<open>message\<close> of the JSON body and, on success, the
  document the \<open>product\<close> member of the body is read from.
\<close>

datatype response = Reply nat string "product option"

fun status :: "response \<Rightarrow> nat" where
  "status (Reply st msg doc) = st"

text \<open>
  Numbers of a request body are given as \<open>parseInt\<close> and \<open>parseFloat\<close> leave them:
  \<open>None\<close> stands for \<open>NaN\<close>. \<open>x || 0\<close> turns \<open>NaN\<close> (and zero) into zero.
\<close>

definition or_zero :: "'a::zero option \<Rightarrow> 'a" where
  "or_zero x = (case x of None \<Rightarrow> 0 | Some v \<Rightarrow> v)"

record create_body =
  req_barcode :: "string option"
  req_name :: "string option"
  req_quantity :: "int option"
  req_note :: "string option"
  req_buyingPrice :: "real option"
  req_sellingPrice :: "real option"
  req_boughtFrom :: "string option"
  req_sellLocation :: "string option"
  req_category :: "nat option"
  req_unit :: "string option"

record stock_body =
  stk_quantity :: "int option"
  stk_note :: "string option"
  stk_counterpart :: "string option"

text \<open>
  In an update every member may be \<open>undefined\<close> (the outer \<open>None\<close>); a defined
  category is \<open>null\<close> or empty (\<open>Some None\<close>) or an identifier.
\<close>

record update_body =
  upd_name :: "string option"
  upd_note :: "string option"
  upd_buyingPrice :: "real option option"
  upd_sellingPrice :: "real option option"
  upd_boughtFrom :: "string option"
  upd_sellLocation :: "string option"
  upd_imageUrl :: "string option"
  upd_category :: "nat option option"
  upd_newBarcode :: "string option"
  upd_unit :: "string option"

text \<open>The unit the routes fall back to, the bytes of a non-ASCII word.\<close>

definition default_unit :: string where
  "default_unit = [CHR 0xC9, CHR 0x99, CHR ''d'', CHR 0xC9, CHR 0x99, CHR ''d'']"

text \<open>\<open>req.user.companyAccess?.some(ca => ca.companySlug === slug)\<close>\<close>

definition hasAccess :: "user \<Rightarrow> string \<Rightarrow> bool" where
  "hasAccess u slug =
     (case companyAccess u of None \<Rightarrow> False
      | Some cas \<Rightarrow> list_ex (\<lambda>ca. companySlug ca = slug) cas)"

section \<open>Product routes\<close>

subsection \<open>POST /api/products\<close>

text \<open>The document \<open>new req.Product({...})\<close> of the route.\<close>

definition newProduct :: "user \<Rightarrow> tenant \<Rightarrow> create_body \<Rightarrow> product" where
  "newProduct u t body =
     (let initialQuantity = or_zero (req_quantity body);
          categoryDoc =
            (case req_category body of None \<Rightarrow> None
             | Some c \<Rightarrow> map_option (\<lambda>n. (c, n)) (map_of (categories t) c))
      in applySetters
        \<lparr>barcode = trim (the (req_barcode body)),
         name = trim (the (req_name body)),
         currentStock = initialQuantity,
         pnote = or_else (req_note body) [],
         buyingPrice = or_zero (req_buyingPrice body),
         sellingPrice = or_zero (req_sellingPrice body),
         boughtFrom = or_else (map_option trim (req_boughtFrom body)) [],
         sellLocation = or_else (map_option trim (req_sellLocation body)) [],
         imageUrl = [],
         unit = or_else (map_option trim (req_unit body)) default_unit,
         category = map_option fst categoryDoc,
         categoryName = (case categoryDoc of None \<Rightarrow> [] | Some d \<Rightarrow> snd d),
         stockHistory =
           (if initialQuantity > 0
            then [\<lparr>quantity = initialQuantity, mtype = Add,
                   mnote = or_else (req_note body) ''Initial stock'',
                   supplier = or_else (map_option trim (req_boughtFrom body)) [],
                   location = [],
                   addedBy = user_id u, addedByName = fullName u\<rparr>]
            else []),
         createdBy = Some (user_id u),
         createdByName = Some (fullName u)\<rparr>)"

definition createProduct :: "faults \<Rightarrow> user \<Rightarrow> tenant \<Rightarrow> create_body \<Rightarrow> response \<times> tenant" where
  "createProduct flt u t body =
     (if falsy (req_barcode body) \<or> falsy (req_name body)
      then (Reply 400 ''Barcode and name are required'' None, t)
      else if flt ProductFindOne then (Reply 500 ''Failed to create product'' None, t)
      else if findOne (products t) (trim (the (req_barcode body))) \<noteq> None
      then (Reply 409 ''Product with this barcode already exists'' None, t)
      else if req_category body \<noteq> None \<and> flt CategoryFindById
      then (Reply 500 ''Failed to create product'' None, t)
      else
        let product = newProduct u t body
        in case saveNew (flt ProductSave) (products t) product of
             Inl e \<Rightarrow> (Reply 500 ''Failed to create product'' None, t)
           | Inr ps \<Rightarrow>
               (Reply 201 ''Product created successfully'' (Some (preSave product)),
                t\<lparr>products := ps\<rparr>))"

subsection \<open>The suffix loop of the duplicate and transfer routes\<close>

text \<open>
  \<open>while (await Model.findOne({ barcode: newBarcode })) { counter++; newBarcode = ... }\<close>:
  the loop returns the counter it stops at.
\<close>

function freeCounter :: "product list \<Rightarrow> string \<Rightarrow> nat \<Rightarrow> nat" where
  "freeCounter ps b counter =
     (if findOne ps (suffixed b counter) \<noteq> None then freeCounter ps b (counter + 1)
      else counter)"
  by pat_completeness auto

text \<open>
  The loop stops: the candidates of different counters differ, so only finitely many of
  them are stored.
\<close>

lemma digit_inj: "a < 10 \<Longrightarrow> b < 10 \<Longrightarrow> digit a = digit b \<Longrightarrow> a = b"
proof -
  assume a: "a < 10" and b: "b < 10" and e: "digit a = digit b"
  from e have "(of_char (digit a) :: nat) = of_char (digit b)" by simp
  then have "(48 + a) mod 256 = (48 + b) mod 256" by (simp add: digit_def)
  with a b show ?thesis by simp
qed

lemma decimal_nonempty: "decimal n \<noteq> []"
  by (subst decimal.simps) simp

lemma decimal_inj: "decimal m = decimal n \<Longrightarrow> m = n"
proof (induction m arbitrary: n rule: decimal.induct)
  case (1 m)
  show ?case
  proof (cases "m < 10")
    case True
    then have dm: "decimal m = [digit m]" by (subst decimal.simps) simp
    show ?thesis
    proof (cases "n < 10")
      case True
      then have "decimal n = [digit n]" by (subst decimal.simps) simp
      with dm "1.prems" \<open>m < 10\<close> True show ?thesis by (auto dest: digit_inj)
    next
      case False
      then have "decimal n = decimal (n div 10) @ [digit (n mod 10)]" by (subst decimal.simps) simp
      with dm "1.prems" decimal_nonempty [of "n div 10"] show ?thesis by auto
    qed
  next
    case False
    then have dm: "decimal m = decimal (m div 10) @ [digit (m mod 10)]" by (subst decimal.simps) simp
    show ?thesis
    proof (cases "n < 10")
      case True
      then have "decimal n = [digit n]" by (subst decimal.simps) simp
      with dm "1.prems" decimal_nonempty [of "m div 10"] show ?thesis by auto
    next
      case n: False
      then have dn: "decimal n = decimal (n div 10) @ [digit (n mod 10)]" by (subst decimal.simps) simp
      from dm dn "1.prems" have q: "decimal (m div 10) = decimal (n div 10)"
        and r: "digit (m mod 10) = digit (n mod 10)" by auto
      from "1.IH" [OF False q] have "m div 10 = n div 10" .
      moreover from r have "m mod 10 = n mod 10" by (auto dest!: digit_inj [rotated 2])
      ultimately show ?thesis by (metis div_mult_mod_eq)
    qed
  qed
qed

lemma suffixed_inj: "suffixed b j = suffixed b k \<Longrightarrow> j = k"
  by (simp add: suffixed_def decimal_inj)

lemma findOne_None_iff: "findOne ps b = None \<longleftrightarrow> b \<notin> barcode ` set ps"
  by (auto simp: findOne_def find_None_iff)

lemma finite_taken: "finite {k. findOne ps (suffixed b k) \<noteq> None}"
proof -
  have "{k. findOne ps (suffixed b k) \<noteq> None} = suffixed b -` (barcode ` set ps)"
    by (auto simp: findOne_None_iff)
  moreover have "inj (suffixed b)" by (rule injI) (rule suffixed_inj)
  ultimately show ?thesis by (simp add: finite_vimageI)
qed

termination freeCounter
proof (relation "measure (\<lambda>(ps, b, c). card {k. c \<le> k \<and> findOne ps (suffixed b k) \<noteq> None})")
  show "wf (measure (\<lambda>(ps, b, c). card {k. c \<le> k \<and> findOne ps (suffixed b k) \<noteq> None}))" by simp
next
  fix ps b counter
  assume taken: "findOne ps (suffixed b counter) \<noteq> None"
  let ?A = "\<lambda>c. {k. c \<le> k \<and> findOne ps (suffixed b k) \<noteq> None}"
  have fin: "finite (?A counter)" using finite_taken [of ps b] by (rule rev_finite_subset) auto
  have "counter \<in> ?A counter" "counter \<notin> ?A (counter + 1)" using taken by auto
  moreover have "?A (counter + 1) \<subseteq> ?A counter" by auto
  ultimately have "?A (counter + 1) \<subset> ?A counter" by blast
  then have "card (?A (counter + 1)) < card (?A counter)" using fin by (rule psubset_card_mono [rotated])
  then show "((ps, b, counter + 1), (ps, b, counter)) \<in> measure (\<lambda>(ps, b, c). card {k. c \<le> k \<and> findOne ps (suffixed b k) \<noteq> None})"
    by simp
qed

subsection \<open>POST /api/products/:barcode/duplicate\<close>

text \<open>The barcode of the copy: the first free one of \<open>bc(1)\<close>, \<open>bc(2)\<close>, and so on.\<close>

definition newBarcode :: "product list \<Rightarrow> string \<Rightarrow> string" where
  "newBarcode ps bc = suffixed bc (freeCounter ps bc 1)"

definition duplicatedProduct :: "user \<Rightarrow> product list \<Rightarrow> string \<Rightarrow> product \<Rightarrow> product" where
  "duplicatedProduct u ps bc originalProduct = applySetters
     \<lparr>barcode = newBarcode ps bc,
      name = name originalProduct,
      currentStock = currentStock originalProduct,
      pnote = pnote originalProduct,
      buyingPrice = buyingPrice originalProduct,
      sellingPrice = sellingPrice originalProduct,
      boughtFrom = boughtFrom originalProduct,
      sellLocation = sellLocation originalProduct,
      imageUrl = imageUrl originalProduct,
      unit = unit originalProduct,
      category = category originalProduct,
      categoryName = categoryName originalProduct,
      stockHistory =
        (if currentStock originalProduct > 0
         then [\<lparr>quantity = currentStock originalProduct, mtype = Add,
                mnote = ''Duplicated from '' @ bc,
                supplier = [], location = [],
                addedBy = user_id u, addedByName = fullName u\<rparr>]
         else []),
      createdBy = Some (user_id u),
      createdByName = Some (fullName u)\<rparr>"

definition duplicateProduct :: "faults \<Rightarrow> user \<Rightarrow> tenant \<Rightarrow> string \<Rightarrow> response \<times> tenant" where
  "duplicateProduct flt u t bc =
     (if flt ProductFindOne then (Reply 500 ''Failed to duplicate product'' None, t)
      else case findOne (products t) (trim bc) of
        None \<Rightarrow> (Reply 404 ''Product not found'' None, t)
      | Some originalProduct \<Rightarrow>
          let duplicated = duplicatedProduct u (products t) bc originalProduct
          in case saveNew (flt ProductSave) (products t) duplicated of
               Inl e \<Rightarrow> (Reply 500 ''Failed to duplicate product'' None, t)
             | Inr ps \<Rightarrow>
                 (Reply 201 ''Product duplicated successfully'' (Some (preSave duplicated)),
                  t\<lparr>products := ps\<rparr>))"

subsection \<open>POST /api/products/:barcode/transfer\<close>

text \<open>
  The route works on two company databases: the one of the request (\<open>req.Product\<close>) and
  the one of the target company. \<open>targetBarcode\<close> is the barcode the copy is stored under:
  the barcode of the source product when the target company has none like it, otherwise
  the first free one with a counter.
\<close>

definition targetBarcode :: "product list \<Rightarrow> string \<Rightarrow> string" where
  "targetBarcode tps sourceBarcode =
     (if findOne tps sourceBarcode \<noteq> None
      then suffixed sourceBarcode (freeCounter tps sourceBarcode 1)
      else sourceBarcode)"

definition transferredProduct :: "user \<Rightarrow> string \<Rightarrow> product list \<Rightarrow> product \<Rightarrow> product" where
  "transferredProduct u slug tps sourceProduct = applySetters
     \<lparr>barcode = targetBarcode tps (barcode sourceProduct),
      name = name sourceProduct,
      currentStock = currentStock sourceProduct,
      pnote = pnote sourceProduct,
      buyingPrice = buyingPrice sourceProduct,
      sellingPrice = sellingPrice sourceProduct,
      boughtFrom = boughtFrom sourceProduct,
      sellLocation = sellLocation sourceProduct,
      imageUrl = imageUrl sourceProduct,
      unit = unit sourceProduct,
      category = None,
      categoryName = [],
      stockHistory =
        [\<lparr>quantity = currentStock sourceProduct, mtype = Add,
          mnote = ''Transferred from '' @ slug,
          supplier = [], location = [],
          addedBy = user_id u,
          addedByName = (if fullName u \<noteq> [] then fullName u else username u)\<rparr>],
      createdBy = None,
      createdByName = None\<rparr>"

definition set_products :: "world \<Rightarrow> string \<Rightarrow> product list \<Rightarrow> world" where
  "set_products w slug ps = w\<lparr>tenants := (tenants w)(slug := (tenants w slug)\<lparr>products := ps\<rparr>)\<rparr>"

definition transferProduct ::
  "faults \<Rightarrow> user \<Rightarrow> string \<Rightarrow> world \<Rightarrow> string \<Rightarrow> string option \<Rightarrow> bool \<Rightarrow> response \<times> world" where
  "transferProduct flt u slug w bc targetCompanySlug keepOriginal =
     (if falsy targetCompanySlug then (Reply 400 ''Target company slug is required'' None, w)
      else
        let target = the targetCompanySlug in
        if target = slug then (Reply 400 ''Cannot transfer to the same company'' None, w)
        else if \<not> isSuperAdmin u \<and> \<not> hasAccess u target
        then (Reply 403 ''No access to target company'' None, w)
        else if flt CompanyFindOne then (Reply 500 ''Failed to transfer product'' None, w)
        else if (target, True) \<notin> set (companies w)
        then (Reply 404 ''Target company not found'' None, w)
        else if flt ProductFindOne then (Reply 500 ''Failed to transfer product'' None, w)
        else case findOne (products (tenants w slug)) (trim bc) of
          None \<Rightarrow> (Reply 404 ''Product not found'' None, w)
        | Some sourceProduct \<Rightarrow>
            if flt GetCompanyConnection \<or> flt TargetFindOne
            then (Reply 500 ''Failed to transfer product'' None, w)
            else
              let tps = products (tenants w target);
                  transferred = transferredProduct u slug tps sourceProduct
              in case saveNew (flt ProductSave) tps transferred of
                   Inl e \<Rightarrow> (Reply 500 ''Failed to transfer product'' None, w)
                 | Inr tps' \<Rightarrow>
                     let w' = set_products w target tps' in
                     if \<not> keepOriginal
                     then
                       if flt ProductDelete
                       then (Reply 500 ''Failed to transfer product'' None, w')
                       else (Reply 200 ''Product transferred to target company''
                               (Some (preSave transferred)),
                             set_products w' slug
                               (deleteOne (products (tenants w' slug)) (trim bc)))
                     else (Reply 200 ''Product copied to target company''
                             (Some (preSave transferred)), w'))"

subsection \<open>POST /api/products/:barcode/add-stock and remove-stock\<close>

definition addStock :: "faults \<Rightarrow> user \<Rightarrow> tenant \<Rightarrow> string \<Rightarrow> stock_body \<Rightarrow> response \<times> tenant" where
  "addStock flt u t bc body =
     (case stk_quantity body of
        None \<Rightarrow> (Reply 400 ''Valid quantity is required'' None, t)
      | Some addQuantity \<Rightarrow>
          if addQuantity = 0 \<or> addQuantity \<le> 0
          then (Reply 400 ''Valid quantity is required'' None, t)
          else if flt ProductFindOne then (Reply 500 ''Failed to add stock'' None, t)
          else case findOne (products t) (trim bc) of
            None \<Rightarrow> (Reply 404 ''Product not found'' None, t)
          | Some product \<Rightarrow>
              let product' = product
                    \<lparr>currentStock := currentStock product + addQuantity,
                     stockHistory := stockHistory product @
                       [\<lparr>quantity = addQuantity, mtype = Add,
                         mnote = or_else (stk_note body) [],
                         supplier = or_else (map_option trim (stk_counterpart body)) [],
                         location = [],
                         addedBy = user_id u, addedByName = fullName u\<rparr>]\<rparr>
              in case saveLoaded (flt ProductSave) (products t) product product' of
                   Inl e \<Rightarrow> (Reply 500 ''Failed to add stock'' None, t)
                 | Inr ps \<Rightarrow>
                     (Reply 200 (''Added '' @ decimal (nat addQuantity) @ '' to stock'')
                        (Some (preSave product')),
                      t\<lparr>products := ps\<rparr>))"

definition removeStock :: "faults \<Rightarrow> user \<Rightarrow> tenant \<Rightarrow> string \<Rightarrow> stock_body \<Rightarrow> response \<times> tenant" where
  "removeStock flt u t bc body =
     (case stk_quantity body of
        None \<Rightarrow> (Reply 400 ''Valid quantity is required'' None, t)
      | Some removeQuantity \<Rightarrow>
          if removeQuantity = 0 \<or> removeQuantity \<le> 0
          then (Reply 400 ''Valid quantity is required'' None, t)
          else if flt ProductFindOne then (Reply 500 ''Failed to remove stock'' None, t)
          else case findOne (products t) (trim bc) of
            None \<Rightarrow> (Reply 404 ''Product not found'' None, t)
          | Some product \<Rightarrow>
              if currentStock product < removeQuantity
              then (Reply 400 ''Insufficient stock'' None, t)
              else
                let product' = product
                      \<lparr>currentStock := currentStock product - removeQuantity,
                       stockHistory := stockHistory product @
                         [\<lparr>quantity = removeQuantity, mtype = Remove,
                           mnote = or_else (stk_note body) [],
                           supplier = [],
                           location = or_else (map_option trim (stk_counterpart body)) [],
                           addedBy = user_id u, addedByName = fullName u\<rparr>]\<rparr>
                in case saveLoaded (flt ProductSave) (products t) product product' of
                     Inl e \<Rightarrow> (Reply 500 ''Failed to remove stock'' None, t)
                   | Inr ps \<Rightarrow>
                       (Reply 200 (''Removed '' @ decimal (nat removeQuantity) @ '' from stock'')
                          (Some (preSave product')),
                        t\<lparr>products := ps\<rparr>))"

subsection \<open>PUT and DELETE /api/products/:barcode\<close>

definition assign :: "'a option \<Rightarrow> ('a \<Rightarrow> product \<Rightarrow> product) \<Rightarrow> product \<Rightarrow> product" where
  "assign x f p = (case x of None \<Rightarrow> p | Some v \<Rightarrow> f v p)"

definition updateCategory :: "tenant \<Rightarrow> nat option \<Rightarrow> product \<Rightarrow> product" where
  "updateCategory t c p =
     (case c of
        None \<Rightarrow> p\<lparr>category := None, categoryName := []\<rparr>
      | Some cid \<Rightarrow>
          (case map_of (categories t) cid of
             None \<Rightarrow> p
           | Some n \<Rightarrow> p\<lparr>category := Some cid, categoryName := n\<rparr>))"

definition updateFields :: "tenant \<Rightarrow> update_body \<Rightarrow> product \<Rightarrow> product" where
  "updateFields t body p =
     assign (upd_category body) (updateCategory t)
      (assign (upd_unit body) (\<lambda>v q. q\<lparr>unit := or_else (Some (trim v)) default_unit\<rparr>)
      (assign (upd_imageUrl body) (\<lambda>v q. q\<lparr>imageUrl := v\<rparr>)
      (assign (upd_sellLocation body) (\<lambda>v q. q\<lparr>sellLocation := trim v\<rparr>)
      (assign (upd_boughtFrom body) (\<lambda>v q. q\<lparr>boughtFrom := trim v\<rparr>)
      (assign (upd_sellingPrice body) (\<lambda>v q. q\<lparr>sellingPrice := or_zero v\<rparr>)
      (assign (upd_buyingPrice body) (\<lambda>v q. q\<lparr>buyingPrice := or_zero v\<rparr>)
      (assign (upd_note body) (\<lambda>v q. q\<lparr>pnote := trim v\<rparr>)
      (assign (upd_name body) (\<lambda>v q. q\<lparr>name := trim v\<rparr>) p))))))))"

definition updateProduct :: "faults \<Rightarrow> tenant \<Rightarrow> string \<Rightarrow> update_body \<Rightarrow> response \<times> tenant" where
  "updateProduct flt t bc body =
     (if flt ProductFindOne then (Reply 500 ''Failed to update product'' None, t)
      else case findOne (products t) (trim bc) of
        None \<Rightarrow> (Reply 404 ''Product not found'' None, t)
      | Some product \<Rightarrow>
          let renamed =
                (case upd_newBarcode body of None \<Rightarrow> None
                 | Some nb \<Rightarrow> if trim nb \<noteq> trim bc then Some (trim nb) else None)
          in if renamed \<noteq> None \<and> findOne (products t) (the renamed) \<noteq> None
             then (Reply 400 ''A product with this barcode already exists'' None, t)
             else if (case upd_category body of Some (Some cid) \<Rightarrow> True | _ \<Rightarrow> False)
                     \<and> flt CategoryFindById
             then (Reply 500 ''Failed to update product'' None, t)
             else
               let product' = updateFields t body
                     (assign renamed (\<lambda>v q. q\<lparr>barcode := v\<rparr>) product)
               in case saveLoaded (flt ProductSave) (products t) product product' of
                    Inl e \<Rightarrow> (Reply 500 ''Failed to update product'' None, t)
                  | Inr ps \<Rightarrow>
                      (Reply 200 ''Product updated successfully'' (Some (preSave product')),
                       t\<lparr>products := ps\<rparr>))"

definition deleteProduct :: "faults \<Rightarrow> tenant \<Rightarrow> string \<Rightarrow> response \<times> tenant" where
  "deleteProduct flt t bc =
     (if flt ProductFindOne then (Reply 500 ''Failed to delete product'' None, t)
      else case findOne (products t) (trim bc) of
        None \<Rightarrow> (Reply 404 ''Product not found'' None, t)
      | Some product \<Rightarrow>
          if flt ProductDelete then (Reply 500 ''Failed to delete product'' None, t)
          else (Reply 200 ''Product deleted successfully'' None,
                t\<lparr>products := deleteOne (products t) (barcode product)\<rparr>))"

section \<open>Sequences of requests\<close>

text \<open>
  A request names the company database that \<open>companyMiddleware\<close> selected for it. The
  requests of a run are handled one after another.
\<close>

datatype request =
  ReqCreate faults user string create_body
  | ReqDuplicate faults user string string
  | ReqTransfer faults user string string "string option" bool
  | ReqAddStock faults user string string stock_body
  | ReqRemoveStock faults user string string stock_body
  | ReqUpdate faults string string update_body
  | ReqDelete faults string string

definition in_tenant :: "world \<Rightarrow> string \<Rightarrow> (tenant \<Rightarrow> response \<times> tenant) \<Rightarrow> response \<times> world" where
  "in_tenant w slug h =
     (let (r, t') = h (tenants w slug) in (r, w\<lparr>tenants := (tenants w)(slug := t')\<rparr>))"

fun handle :: "request \<Rightarrow> world \<Rightarrow> response \<times> world" where
  "handle (ReqCreate flt u slug body) w = in_tenant w slug (\<lambda>t. createProduct flt u t body)"
| "handle (ReqDuplicate flt u slug bc) w = in_tenant w slug (\<lambda>t. duplicateProduct flt u t bc)"
| "handle (ReqTransfer flt u slug bc target keep) w = transferProduct flt u slug w bc target keep"
| "handle (ReqAddStock flt u slug bc body) w = in_tenant w slug (\<lambda>t. addStock flt u t bc body)"
| "handle (ReqRemoveStock flt u slug bc body) w = in_tenant w slug (\<lambda>t. removeStock flt u t bc body)"
| "handle (ReqUpdate flt slug bc body) w = in_tenant w slug (\<lambda>t. updateProduct flt t bc body)"
| "handle (ReqDelete flt slug bc) w = in_tenant w slug (\<lambda>t. deleteProduct flt t bc)"

fun run :: "request list \<Rightarrow> world \<Rightarrow> world" where
  "run [] w = w"
| "run (r # rs) w = run rs (snd (handle r w))"

section \<open>The connection cache of db-manager.js\<close>

text \<open>
  A connection handle with its \<open>readyState\<close> (1 is connected). The registry is the
  module-level \<open>connectionCache\<close>; \<open>created\<close> records every call of
  \<open>mongoose.createConnection\<close>, in order, by the company slug it was made for.
\<close>

record connection =
  conn_id :: nat
  readyState :: nat

record registry =
  connectionCache :: "string \<Rightarrow> connection option"
  created :: "string list"

definition empty_registry :: registry where
  "empty_registry = \<lparr>connectionCache = (\<lambda>slug. None), created = []\<rparr>"

text \<open>
  \<open>getCompanyConnection\<close> runs in two parts. The first part runs without interruption up
  to its \<open>await\<close>: it answers from the cache, or drops a stale entry and calls
  \<open>mongoose.createConnection\<close>. The second part runs when the awaited connection settles:
  it stores the connection in the cache, or throws when the connection was refused.
\<close>

datatype acquire = Cached connection | Awaiting nat

definition getCompanyConnection_begin :: "registry \<Rightarrow> string \<Rightarrow> acquire \<times> registry" where
  "getCompanyConnection_begin r slug =
     (let live = (case connectionCache r slug of None \<Rightarrow> None
                  | Some cachedConn \<Rightarrow> if readyState cachedConn = 1 then Some cachedConn else None)
      in case live of
           Some cachedConn \<Rightarrow> (Cached cachedConn, r)
         | None \<Rightarrow>
             (Awaiting (length (created r)),
              r\<lparr>connectionCache := (connectionCache r)(slug := None),
                created := created r @ [slug]\<rparr>))"

definition getCompanyConnection_resume ::
  "registry \<Rightarrow> string \<Rightarrow> nat \<Rightarrow> bool \<Rightarrow> (db_error + connection) \<times> registry" where
  "getCompanyConnection_resume r slug n refused =
     (if refused then (Inl StorageFailure, r)
      else
        let connection = \<lparr>conn_id = n, readyState = 1\<rparr>
        in (Inr connection, r\<lparr>connectionCache := (connectionCache r)(slug \<mapsto> connection)\<rparr>))"

text \<open>A call that no other call overlaps.\<close>

definition getCompanyConnection ::
  "registry \<Rightarrow> string \<Rightarrow> bool \<Rightarrow> (db_error + connection) \<times> registry" where
  "getCompanyConnection r slug refused =
     (case getCompanyConnection_begin r slug of
        (Cached c, r') \<Rightarrow> (Inr c, r')
      | (Awaiting n, r') \<Rightarrow> getCompanyConnection_resume r' slug n refused)"





section \<open>The company middleware of server.js\<close>

text \<open>
  \<open>config.DEFAULT_COMPANY_SLUG\<close> is a parameter. The middleware answers with a response,
  or passes on with \<open>req.companySlug\<close> and the connection.
\<close>

definition legacyAccess :: "user \<Rightarrow> bool" where
  "legacyAccess u = (case companyAccess u of None \<Rightarrow> True | Some cas \<Rightarrow> length cas = 0)"

definition companyMiddleware ::
  "string \<Rightarrow> bool \<Rightarrow> user \<Rightarrow> string option \<Rightarrow> registry
     \<Rightarrow> (response + string \<times> connection) \<times> registry" where
  "companyMiddleware DEFAULT_COMPANY_SLUG refused u header r =
     (let slug = (if falsy header then DEFAULT_COMPANY_SLUG else the header) in
      if \<not> isSuperAdmin u \<and> \<not> hasAccess u slug \<and> \<not> legacyAccess u
      then (Inl (Reply 403 ''No access to this company'' None), r)
      else case getCompanyConnection r slug refused of
             (Inl e, r') \<Rightarrow> (Inl (Reply 500 ''Failed to connect to company database'' None), r')
           | (Inr companyDb, r') \<Rightarrow> (Inr (slug, companyDb), r'))"

section \<open>Notions used in the properties\<close>

text \<open>The signed sum of a ledger: additions count positive, removals negative.\<close>

definition signed :: "stock_movement \<Rightarrow> int" where
  "signed m = (case mtype m of Add \<Rightarrow> quantity m | Remove \<Rightarrow> - quantity m)"

definition ledger_sum :: "stock_movement list \<Rightarrow> int" where
  "ledger_sum h = sum_list (map signed h)"

text \<open>The sequence of candidates: the barcode itself, then the barcode with a counter.\<close>

definition candidate :: "string \<Rightarrow> nat \<Rightarrow> string" where
  "candidate b k = (if k = 0 then b else suffixed b k)"

definition first_free :: "product list \<Rightarrow> string \<Rightarrow> nat \<Rightarrow> bool" where
  "first_free ps b k \<longleftrightarrow>
     findOne ps (candidate b k) = None \<and> (\<forall>j<k. findOne ps (candidate b j) \<noteq> None)"

text \<open>
  A document as a save through the schema leaves it: it passes validation, its trimmed
  strings are trimmed and its unit is set.
\<close>

definition stored :: "product \<Rightarrow> bool" where
  "stored p \<longleftrightarrow> validateNew p \<and> trim (barcode p) = barcode p \<and> trim (name p) = name p
     \<and> trim (boughtFrom p) = boughtFrom p \<and> trim (sellLocation p) = sellLocation p
     \<and> trim (unit p) = unit p \<and> unit p \<noteq> []"

text \<open>
  A transfer request that gets as far as saving the copy: a target other than the
  company of the request, to which the user has access and which is an active company,
  and no storage call rejecting before the save.
\<close>

definition copy_attempted :: "faults \<Rightarrow> user \<Rightarrow> string \<Rightarrow> world \<Rightarrow> string \<Rightarrow> bool" where
  "copy_attempted flt u slug w target \<longleftrightarrow>
     target \<noteq> [] \<and> target \<noteq> slug \<and> (isSuperAdmin u \<or> hasAccess u target)
     \<and> (target, True) \<in> set (companies w)
     \<and> \<not> flt CompanyFindOne \<and> \<not> flt ProductFindOne
     \<and> \<not> flt GetCompanyConnection \<and> \<not> flt TargetFindOne"

text \<open>
  A transfer request that passes the checks of the route and reads its source product:
  everything before the target company is contacted.
\<close>

definition transfer_admitted :: "faults \<Rightarrow> user \<Rightarrow> string \<Rightarrow> world \<Rightarrow> string \<Rightarrow> bool" where
  "transfer_admitted flt u slug w target \<longleftrightarrow>
     target \<noteq> [] \<and> target \<noteq> slug \<and> (isSuperAdmin u \<or> hasAccess u target)
     \<and> (target, True) \<in> set (companies w)
     \<and> \<not> flt CompanyFindOne \<and> \<not> flt ProductFindOne"

text \<open>The copy a transfer stores in the target company.\<close>

definition copy_of :: "user \<Rightarrow> string \<Rightarrow> product list \<Rightarrow> product \<Rightarrow> product" where
  "copy_of u slug tps src = src
     \<lparr>barcode := targetBarcode tps (barcode src),
      category := None, categoryName := [],
      stockHistory :=
        [\<lparr>quantity = currentStock src, mtype = Add, mnote = ''Transferred from '' @ slug,
          supplier = [], location = [], addedBy = user_id u,
          addedByName = (if fullName u \<noteq> [] then fullName u else username u)\<rparr>],
      createdBy := None, createdByName := None\<rparr>"

text \<open>
  The stock counter of a product agrees with its ledger; a world is consistent when this
  holds for every product of every company.
\<close>

definition counter_matches :: "product \<Rightarrow> bool" where
  "counter_matches p \<longleftrightarrow> currentStock p = ledger_sum (stockHistory p)"



text \<open>
  A company database is well formed when every product is a stored document and no two
  products share a barcode, as the unique index demands.
\<close>

definition well_formed :: "tenant \<Rightarrow> bool" where
  "well_formed t \<longleftrightarrow> (\<forall>p \<in> set (products t). stored p) \<and> distinct (map barcode (products t))"

definition all_well_formed :: "world \<Rightarrow> bool" where
  "all_well_formed w \<longleftrightarrow> (\<forall>slug. well_formed (tenants w slug))"

text \<open>The part of \<open>stored\<close> that the setters of the schema look after.\<close>

definition trimmed :: "product \<Rightarrow> bool" where
  "trimmed p \<longleftrightarrow> trim (barcode p) = barcode p \<and> trim (name p) = name p
     \<and> trim (boughtFrom p) = boughtFrom p \<and> trim (sellLocation p) = sellLocation p
     \<and> trim (unit p) = unit p \<and> unit p \<noteq> []"

section \<open>Example data\<close>

text \<open>
  A clerk with grants for the companies \<open>a\<close> and \<open>c\<close>, an account from before company
  grants existed, a super admin, and a company database holding one product.
\<close>

definition clerk :: user where
  "clerk = \<lparr>user_id = 7, username = ''clerk'', fullName = ''Store Clerk'', isSuperAdmin = False,
     companyAccess = Some [\<lparr>companySlug = ''a'', accessRole = ''user''\<rparr>,
                           \<lparr>companySlug = ''c'', accessRole = ''user''\<rparr>]\<rparr>"

definition legacy_user :: user where
  "legacy_user = \<lparr>user_id = 9, username = ''old'', fullName = ''Old Account'',
     isSuperAdmin = False, companyAccess = Some []\<rparr>"

definition widget :: "int \<Rightarrow> product" where
  "widget n =
     \<lparr>barcode = ''B123'', name = ''Widget'', currentStock = n, pnote = [],
      buyingPrice = 2, sellingPrice = 3, boughtFrom = [], sellLocation = [], imageUrl = [],
      unit = ''pcs'', category = Some 4, categoryName = ''Tools'',
      stockHistory = (if n = 0 then [] else
        [\<lparr>quantity = n, mtype = Add, mnote = ''Initial stock'', supplier = [], location = [],
          addedBy = 7, addedByName = ''Store Clerk''\<rparr>]),
      createdBy = Some 7, createdByName = Some ''Store Clerk''\<rparr>"

definition tenantA :: "int \<Rightarrow> tenant" where
  "tenantA n = \<lparr>products = [widget n], categories = [(4, ''Tools'')]\<rparr>"


definition named :: "string \<Rightarrow> product" where
  "named b = (widget 1)\<lparr>barcode := b\<rparr>"

definition worldA :: "int \<Rightarrow> world" where
  "worldA n = \<lparr>tenants = (\<lambda>slug. empty_tenant)(''a'' := tenantA n),
     companies = [(''a'', True), (''c'', True)]\<rparr>"

text \<open>
  Fault assignments in which exactly one storage call rejects: the save, the connection
  to the target company, the deletion.
\<close>

definition save_rejects :: faults where
  "save_rejects c = (c = ProductSave)"

definition unreachable :: faults where
  "unreachable c = (c = GetCompanyConnection)"

definition delete_rejects :: faults where
  "delete_rejects c = (c = ProductDelete)"

text \<open>A product registered without a quantity, in a world that has no products yet.\<close>

definition nothing_in_stock :: create_body where
  "nothing_in_stock = \<lparr>req_barcode = Some ''B123'', req_name = Some ''Widget'',
     req_quantity = None, req_note = None, req_buyingPrice = Some 2, req_sellingPrice = Some 3,
     req_boughtFrom = None, req_sellLocation = None, req_category = None, req_unit = Some ''pcs''\<rparr>"

definition no_products :: world where
  "no_products = \<lparr>tenants = (\<lambda>slug. empty_tenant), companies = [(''a'', True), (''c'', True)]\<rparr>"





section \<open>Facts about trimming\<close>

lemma trim_fixed: "s \<noteq> [] \<Longrightarrow> \<not> is_space (hd s) \<Longrightarrow> \<not> is_space (last s) \<Longrightarrow> trim s = s"
proof -
  assume ne: "s \<noteq> []" and h: "\<not> is_space (hd s)" and l: "\<not> is_space (last s)"
  from h have 1: "dropWhile is_space s = s" by (simp add: dropWhile_eq_self_iff)
  from l have "\<not> is_space (hd (rev s))" by (simp add: hd_rev)
  then have 2: "dropWhile is_space (rev s) = rev s" by (simp add: dropWhile_eq_self_iff)
  show ?thesis by (simp add: trim_def 1 2)
qed

lemma trim_empty [simp]: "trim [] = []"
  by (simp add: trim_def)

lemma length_trim_le: "length (trim s) \<le> length (dropWhile is_space s)"
  using length_dropWhile_le [of is_space "rev (dropWhile is_space s)"] by (simp add: trim_def)

lemma trimmed_hd: "trim s = s \<Longrightarrow> s \<noteq> [] \<Longrightarrow> \<not> is_space (hd s)"
proof
  assume eq: "trim s = s" and ne: "s \<noteq> []" and sp: "is_space (hd s)"
  from ne sp have "dropWhile is_space s = dropWhile is_space (tl s)"
    by (cases s) simp_all
  moreover have "length (dropWhile is_space (tl s)) \<le> length (tl s)"
    by (rule length_dropWhile_le)
  ultimately have "length (dropWhile is_space s) < length s" using ne by (cases s) simp_all
  with length_trim_le [of s] eq show False by simp
qed

lemma trim_suffixed: "trim b = b \<Longrightarrow> b \<noteq> [] \<Longrightarrow> trim (suffixed b k) = suffixed b k"
proof -
  assume eq: "trim b = b" and ne: "b \<noteq> []"
  have "\<not> is_space (hd (suffixed b k))"
    using trimmed_hd [OF eq ne] ne by (simp add: suffixed_def)
  moreover have "\<not> is_space (last (suffixed b k))"
    by (simp add: suffixed_def is_space_def)
  moreover have "suffixed b k \<noteq> []" by (simp add: suffixed_def)
  ultimately show ?thesis by (simp add: trim_fixed)
qed

lemma trim_idem [simp]: "trim (trim s) = trim s"
proof (cases "trim s = []")
  case True
  then show ?thesis by simp
next
  case False
  let ?t = "dropWhile is_space s"
  let ?r = "dropWhile is_space (rev ?t)"
  have ts: "trim s = rev ?r" by (simp add: trim_def)
  from False ts have r: "?r \<noteq> []" by simp
  then have last_ok: "\<not> is_space (hd ?r)" by (rule hd_dropWhile)
  have "rev (takeWhile is_space (rev ?t) @ ?r) = rev (rev ?t)"
    by (simp only: takeWhile_dropWhile_id)
  then have split: "rev ?r @ rev (takeWhile is_space (rev ?t)) = ?t"
    by (simp only: rev_append rev_rev_ident)
  from r have rr: "rev ?r \<noteq> []" by simp
  from split rr have "hd ?t = hd (rev ?r)" by (metis hd_append2)
  moreover from split rr have t: "?t \<noteq> []" by (metis append_is_Nil_conv)
  then have "\<not> is_space (hd ?t)" by (rule hd_dropWhile)
  ultimately have first_ok: "\<not> is_space (hd (rev ?r))" by simp
  from last_ok have "\<not> is_space (last (rev ?r))" by (simp add: last_rev)
  with first_ok rr show ?thesis unfolding ts by (intro trim_fixed)
qed

section \<open>Facts about the collections\<close>



lemma barcode_preSave [simp]: "barcode (preSave p) = barcode p"
  and currentStock_preSave [simp]: "currentStock (preSave p) = currentStock p"
  and stockHistory_preSave [simp]: "stockHistory (preSave p) = stockHistory p"
  by (simp_all add: preSave_def)

lemma trim_B123 [simp]: "trim ''B123'' = ''B123''"
  by (simp add: trim_def is_space_def)

lemma trim_examples [simp]:
  "trim ''G77'' = ''G77''" "trim ''Gadget'' = ''Gadget''" "trim ''Depot'' = ''Depot''"
  by (simp_all add: trim_def is_space_def)

subsection \<open>The suffix loop\<close>

declare freeCounter.simps [simp del]

lemma freeCounter_free: "findOne ps (suffixed b (freeCounter ps b c)) = None"
  by (induction ps b c rule: freeCounter.induct) (subst freeCounter.simps, simp)

lemma freeCounter_ge: "c \<le> freeCounter ps b c"
proof (induction ps b c rule: freeCounter.induct)
  case (1 ps b counter)
  show ?case
  proof (cases "findOne ps (suffixed b counter) \<noteq> None")
    case True
    with 1 have "counter + 1 \<le> freeCounter ps b (counter + 1)" by simp
    with True show ?thesis by (subst freeCounter.simps) simp
  next
    case False
    then show ?thesis by (subst freeCounter.simps) simp
  qed
qed

lemma freeCounter_taken:
  "c \<le> j \<Longrightarrow> j < freeCounter ps b c \<Longrightarrow> findOne ps (suffixed b j) \<noteq> None"
proof (induction ps b c rule: freeCounter.induct)
  case (1 ps b counter)
  show ?case
  proof (cases "findOne ps (suffixed b counter) \<noteq> None")
    case True
    then have step: "freeCounter ps b counter = freeCounter ps b (counter + 1)"
      by (subst freeCounter.simps) simp
    show ?thesis
    proof (cases "j = counter")
      case True
      with \<open>findOne ps (suffixed b counter) \<noteq> None\<close> show ?thesis by simp
    next
      case False
      with "1.prems" have "counter + 1 \<le> j" by simp
      moreover from "1.prems" step have "j < freeCounter ps b (counter + 1)" by simp
      ultimately show ?thesis using "1.IH" True by blast
    qed
  next
    case False
    then have "freeCounter ps b counter = counter" by (subst freeCounter.simps) simp
    with "1.prems" show ?thesis by simp
  qed
qed

lemma targetBarcode_first_free:
  "\<exists>k. targetBarcode ps b = candidate b k \<and> first_free ps b k"
proof (cases "findOne ps b = None")
  case True
  then have "targetBarcode ps b = candidate b 0 \<and> first_free ps b 0"
    by (simp add: targetBarcode_def candidate_def first_free_def)
  then show ?thesis ..
next
  case False
  let ?k = "freeCounter ps b 1"
  have pos: "1 \<le> ?k" by (rule freeCounter_ge)
  have "targetBarcode ps b = candidate b ?k"
    using False pos by (simp add: targetBarcode_def candidate_def)
  moreover have "findOne ps (candidate b ?k) = None"
    using pos freeCounter_free [of ps b 1] by (simp add: candidate_def)
  moreover have "\<forall>j<?k. findOne ps (candidate b j) \<noteq> None"
  proof (intro allI impI)
    fix j assume j: "j < ?k"
    show "findOne ps (candidate b j) \<noteq> None"
    proof (cases "j = 0")
      case True
      with False show ?thesis by (simp add: candidate_def)
    next
      case nz: False
      then have "1 \<le> j" by simp
      from freeCounter_taken [OF this j] nz show ?thesis by (simp add: candidate_def)
    qed
  qed
  ultimately have "targetBarcode ps b = candidate b ?k \<and> first_free ps b ?k"
    by (simp add: first_free_def)
  then show ?thesis ..
qed

lemma first_free_unique: "first_free ps b j \<Longrightarrow> first_free ps b k \<Longrightarrow> j = k"
  unfolding first_free_def by (metis linorder_neqE_nat)

subsection \<open>The transfer route\<close>

lemma targetBarcode_free: "findOne tps (targetBarcode tps b) = None"
  by (simp add: targetBarcode_def freeCounter_free)

lemma targetBarcode_trimmed:
  "trim b = b \<Longrightarrow> b \<noteq> [] \<Longrightarrow>
     trim (targetBarcode tps b) = targetBarcode tps b \<and> targetBarcode tps b \<noteq> []"
  by (simp add: targetBarcode_def trim_suffixed) (simp add: suffixed_def)

lemma transferred_is_copy:
  assumes "stored src"
  shows "preSave (transferredProduct u slug tps src) = copy_of u slug tps src"
    and "transferredProduct u slug tps src = copy_of u slug tps src"
proof -
  from assms have b: "trim (barcode src) = barcode src" "barcode src \<noteq> []"
    by (simp_all add: stored_def validateNew_def)
  note tb = targetBarcode_trimmed [OF b, of tps]
  show 2: "transferredProduct u slug tps src = copy_of u slug tps src"
    using assms tb
    by (cases src) (simp add: transferredProduct_def copy_of_def applySetters_def stored_def)
  from assms have "unit (copy_of u slug tps src) \<noteq> []"
    by (simp add: copy_of_def stored_def)
  then show "preSave (transferredProduct u slug tps src) = copy_of u slug tps src"
    by (simp add: 2 preSave_def)
qed

lemma validateNew_copy: "stored src \<Longrightarrow> validateNew (copy_of u slug tps src)"
  using targetBarcode_trimmed [of "barcode src" tps]
  by (simp add: stored_def validateNew_def copy_of_def)

lemma saveNew_copy:
  assumes "stored src"
  shows "saveNew rejects tps (transferredProduct u slug tps src) =
           (if rejects then Inl StorageFailure else Inr (tps @ [copy_of u slug tps src]))"
proof -
  have "findOne tps (barcode (copy_of u slug tps src)) = None"
    by (simp add: copy_of_def targetBarcode_free)
  with assms validateNew_copy [OF assms, of u slug tps] transferred_is_copy [OF assms, of u slug tps]
  show ?thesis by (simp add: saveNew_def)
qed

lemma transfer_reaches_save:
  assumes "copy_attempted flt u slug w target"
    and "findOne (products (tenants w slug)) (trim bc) = Some src"
  shows "transferProduct flt u slug w bc (Some target) keepOriginal =
     (let tps = products (tenants w target);
          transferred = transferredProduct u slug tps src
      in case saveNew (flt ProductSave) tps transferred of
           Inl e \<Rightarrow> (Reply 500 ''Failed to transfer product'' None, w)
         | Inr tps' \<Rightarrow>
             let w' = set_products w target tps' in
             if \<not> keepOriginal
             then
               if flt ProductDelete
               then (Reply 500 ''Failed to transfer product'' None, w')
               else (Reply 200 ''Product transferred to target company''
                       (Some (preSave transferred)),
                     set_products w' slug (deleteOne (products (tenants w' slug)) (trim bc)))
             else (Reply 200 ''Product copied to target company''
                     (Some (preSave transferred)), w'))"
proof -
  from assms(1) have access: "\<not> (\<not> isSuperAdmin u \<and> \<not> hasAccess u target)"
    by (auto simp: copy_attempted_def)
  from assms show ?thesis
    by (simp add: transferProduct_def copy_attempted_def falsy_def Let_def access)
qed

lemma products_set_products [simp]:
  "products (tenants (set_products w slug ps) s) = (if s = slug then ps else products (tenants w s))"
  by (simp add: set_products_def)

lemma findOne_append:
  "findOne (ps @ qs) b = (case findOne ps b of None \<Rightarrow> findOne qs b | Some p \<Rightarrow> Some p)"
  by (induction ps) (simp_all add: findOne_def)

lemma findOne_deleteOne:
  "distinct (map barcode ps) \<Longrightarrow> findOne (deleteOne ps b) b = None"
proof (induction ps)
  case Nil
  show ?case by (simp add: findOne_def)
next
  case (Cons a ps)
  show ?case
  proof (cases "barcode a = b")
    case True
    with Cons.prems have "b \<notin> barcode ` set ps" by simp
    with True show ?thesis by (simp add: findOne_None_iff)
  next
    case False
    with Cons have "findOne (deleteOne ps b) b = None" by simp
    with False show ?thesis by (simp add: findOne_def)
  qed
qed

lemma saveNew_Inr:
  "saveNew rejects ps p = Inr ps' \<Longrightarrow> ps' = ps @ [preSave p] \<and> findOne ps (barcode p) = None"
  by (simp add: saveNew_def split: if_splits)

lemma findOne_snoc_new: "findOne ps (barcode q) = None \<Longrightarrow> findOne (ps @ [q]) (barcode q) = Some q"
  by (simp add: findOne_append) (simp add: findOne_def)

lemma stored_widget: "0 \<le> n \<Longrightarrow> stored (widget n)"
  by (simp add: stored_def validateNew_def widget_def trim_def is_space_def)

lemma attempted_example:
  "copy_attempted no_faults clerk ''a'' (worldA n) ''c''"
  "copy_attempted save_rejects clerk ''a'' (worldA n) ''c''"
  "copy_attempted delete_rejects clerk ''a'' (worldA n) ''c''"
  by (simp_all add: copy_attempted_def clerk_def hasAccess_def worldA_def no_faults_def
      save_rejects_def delete_rejects_def)

lemma found_example: "findOne (products (tenants (worldA n) ''a'')) (trim ''B123'') = Some (widget n)"
  by (simp add: worldA_def tenantA_def findOne_def widget_def)

lemma target_example: "products (tenants (worldA n) ''c'') = []"
  by (simp add: worldA_def empty_tenant_def)

lemma preSave_copy: "stored src \<Longrightarrow> preSave (copy_of u slug tps src) = copy_of u slug tps src"
  using transferred_is_copy [of src u slug tps] by simp

lemma saveNew_copy_of:
  "stored src \<Longrightarrow> saveNew rejects tps (copy_of u slug tps src) =
     (if rejects then Inl StorageFailure else Inr (tps @ [copy_of u slug tps src]))"
  using saveNew_copy [of src rejects tps u slug] transferred_is_copy [of src u slug tps] by simp

subsection \<open>The counter and the ledger\<close>

lemma set_replaceOne: "set (replaceOne ps b p') \<subseteq> insert p' (set ps)"
  by (induction ps) auto

lemma set_deleteOne: "set (deleteOne ps b) \<subseteq> set ps"
  by (induction ps) auto

lemma findOne_in_set: "findOne ps b = Some p \<Longrightarrow> p \<in> set ps"
  by (auto simp: findOne_def find_Some_iff)



lemma ledger_sum_snoc [simp]: "ledger_sum (h @ [m]) = ledger_sum h + signed m"
  by (simp add: ledger_sum_def)

lemma ledger_sum_simps [simp]: "ledger_sum [] = 0" "ledger_sum [m] = signed m"
  by (simp_all add: ledger_sum_def)

lemma counter_matches_preSave [simp]: "counter_matches (preSave p) = counter_matches p"
  by (simp add: counter_matches_def)




lemma updateFields_ledger [simp]:
  "currentStock (updateFields t body p) = currentStock p"
  "stockHistory (updateFields t body p) = stockHistory p"
  by (simp_all add: updateFields_def assign_def updateCategory_def split: option.splits)

lemma assign_barcode_ledger [simp]:
  "currentStock (assign x (\<lambda>v q. q\<lparr>barcode := v\<rparr>) p) = currentStock p"
  "stockHistory (assign x (\<lambda>v q. q\<lparr>barcode := v\<rparr>) p) = stockHistory p"
  by (simp_all add: assign_def split: option.splits)















subsection \<open>The connection cache\<close>










lemma copy_attempted_iff:
  "copy_attempted flt u slug w target \<longleftrightarrow>
     transfer_admitted flt u slug w target \<and> \<not> flt GetCompanyConnection \<and> \<not> flt TargetFindOne"
  by (auto simp: copy_attempted_def transfer_admitted_def)

lemma transfer_target_unreachable:
  assumes "transfer_admitted flt u slug w target"
    and "findOne (products (tenants w slug)) (trim bc) = Some src"
    and "flt GetCompanyConnection \<or> flt TargetFindOne"
  shows "transferProduct flt u slug w bc (Some target) keepOriginal
           = (Reply 500 ''Failed to transfer product'' None, w)"
proof -
  from assms(1) have access: "\<not> (\<not> isSuperAdmin u \<and> \<not> hasAccess u target)"
    by (auto simp: transfer_admitted_def)
  from assms show ?thesis
    by (simp add: transferProduct_def transfer_admitted_def falsy_def Let_def access)
qed

lemma admitted_example:
  "transfer_admitted save_rejects clerk ''a'' (worldA n) ''c''"
  "transfer_admitted unreachable clerk ''a'' (worldA n) ''c''"
  by (simp_all add: transfer_admitted_def clerk_def hasAccess_def worldA_def
      save_rejects_def unreachable_def)

subsection \<open>Company databases stay well formed\<close>

text \<open>
  Every product the routes store is a stored document, and the barcodes of a company stay
  unique: the hypotheses about stored products in the sections below hold in every world
  that the routes reach from a world without products.
\<close>

lemma trim_default_unit [simp]: "trim default_unit = default_unit" "default_unit \<noteq> []"
  by (simp_all add: default_unit_def trim_def is_space_def)

lemma trim_pcs [simp]: "trim ''pcs'' = ''pcs''"
  by (simp add: trim_def is_space_def)

lemma stored_preSave_applySetters:
  "validateNew (applySetters x) \<Longrightarrow> stored (preSave (applySetters x))"
  by (simp add: stored_def validateNew_def applySetters_def preSave_def)

lemma saveNew_well_formed:
  assumes wf: "well_formed t" and save: "saveNew rejects (products t) (applySetters x) = Inr ps'"
  shows "well_formed (t\<lparr>products := ps'\<rparr>)"
proof -
  from save have ps': "ps' = products t @ [preSave (applySetters x)]"
    and v: "validateNew (applySetters x)"
    and free: "findOne (products t) (barcode (applySetters x)) = None"
    by (simp_all add: saveNew_def split: if_splits)
  from free have "barcode (preSave (applySetters x)) \<notin> barcode ` set (products t)"
    by (simp add: findOne_None_iff)
  with wf stored_preSave_applySetters [OF v] show ?thesis
    by (auto simp: well_formed_def ps')
qed

lemma distinct_replaceOne:
  "distinct (map barcode ps) \<Longrightarrow> barcode p' = b \<or> barcode p' \<notin> barcode ` set ps \<Longrightarrow>
     b \<in> barcode ` set ps \<Longrightarrow>
     distinct (map barcode (replaceOne ps b p'))
     \<and> barcode ` set (replaceOne ps b p') = insert (barcode p') (barcode ` set ps - {b})"
proof (induction ps)
  case Nil
  then show ?case by simp
next
  case (Cons a ps)
  show ?case
  proof (cases "barcode a = b")
    case True
    with Cons.prems show ?thesis by auto
  next
    case False
    with Cons.prems have "b \<in> barcode ` set ps" by auto
    with Cons.IH Cons.prems False
    have "distinct (map barcode (replaceOne ps b p'))"
      and "barcode ` set (replaceOne ps b p') = insert (barcode p') (barcode ` set ps - {b})"
      by auto
    with Cons.prems False show ?thesis by auto
  qed
qed

lemma distinct_deleteOne: "distinct (map barcode ps) \<Longrightarrow> distinct (map barcode (deleteOne ps b))"
proof (induction ps)
  case Nil
  show ?case by simp
next
  case (Cons a ps)
  from set_deleteOne [of ps b] have "barcode ` set (deleteOne ps b) \<subseteq> barcode ` set ps"
    by blast
  with Cons show ?case by auto
qed

lemma saveLoaded_well_formed:
  assumes wf: "well_formed t"
    and found: "findOne (products t) b = Some old"
    and keeps: "validateModified old p \<Longrightarrow> stored (preSave p)"
    and save: "saveLoaded rejects (products t) old p = Inr ps'"
  shows "well_formed (t\<lparr>products := ps'\<rparr>)"
proof -
  from save have ps': "ps' = replaceOne (products t) (barcode old) (preSave p)"
    and v: "validateModified old p"
    and free: "barcode p = barcode old \<or> findOne (products t) (barcode p) = None"
    by (auto simp: saveLoaded_def split: if_splits)
  from found have old: "old \<in> set (products t)" by (rule findOne_in_set)
  then have b: "barcode old \<in> barcode ` set (products t)" by simp
  from free have "barcode (preSave p) = barcode old \<or> barcode (preSave p) \<notin> barcode ` set (products t)"
    by (auto simp: findOne_None_iff)
  with wf b have d: "distinct (map barcode ps')"
    unfolding ps' well_formed_def by (intro distinct_replaceOne [THEN conjunct1]) simp_all
  from wf keeps [OF v] set_replaceOne [of "products t" "barcode old" "preSave p"]
  have "\<forall>q \<in> set ps'. stored q" unfolding ps' well_formed_def by auto
  with d show ?thesis by (simp add: well_formed_def)
qed

lemma createProduct_well_formed:
  "well_formed t \<Longrightarrow> well_formed (snd (createProduct flt u t body))"
  by (auto simp: createProduct_def newProduct_def Let_def intro: saveNew_well_formed split: sum.splits)

lemma duplicateProduct_well_formed:
  "well_formed t \<Longrightarrow> well_formed (snd (duplicateProduct flt u t bc))"
  by (auto simp: duplicateProduct_def duplicatedProduct_def Let_def intro: saveNew_well_formed
      split: sum.splits option.splits)

lemma stored_moved:
  assumes "stored old" and "validateModified old (old\<lparr>currentStock := c, stockHistory := h\<rparr>)"
  shows "stored (preSave (old\<lparr>currentStock := c, stockHistory := h\<rparr>))"
  using assms by (auto simp: stored_def validateNew_def validateModified_def preSave_def)

lemma addStock_well_formed:
  "well_formed t \<Longrightarrow> well_formed (snd (addStock flt u t bc body))"
proof -
  assume wf: "well_formed t"
  have "well_formed (t\<lparr>products := ps'\<rparr>)"
    if "findOne (products t) b = Some old"
      and "saveLoaded r (products t) old (old\<lparr>currentStock := c, stockHistory := h\<rparr>) = Inr ps'"
    for b old r c h ps'
  proof (rule saveLoaded_well_formed [OF wf that(1) _ that(2)])
    from wf findOne_in_set [OF that(1)] have "stored old" by (simp add: well_formed_def)
    then show "stored (preSave (old\<lparr>currentStock := c, stockHistory := h\<rparr>))"
      if "validateModified old (old\<lparr>currentStock := c, stockHistory := h\<rparr>)"
      using that by (rule stored_moved)
  qed
  with wf show ?thesis
    by (auto simp: addStock_def Let_def split: sum.splits option.splits)
qed

lemma removeStock_well_formed:
  "well_formed t \<Longrightarrow> well_formed (snd (removeStock flt u t bc body))"
proof -
  assume wf: "well_formed t"
  have "well_formed (t\<lparr>products := ps'\<rparr>)"
    if "findOne (products t) b = Some old"
      and "saveLoaded r (products t) old (old\<lparr>currentStock := c, stockHistory := h\<rparr>) = Inr ps'"
    for b old r c h ps'
  proof (rule saveLoaded_well_formed [OF wf that(1) _ that(2)])
    from wf findOne_in_set [OF that(1)] have "stored old" by (simp add: well_formed_def)
    then show "stored (preSave (old\<lparr>currentStock := c, stockHistory := h\<rparr>))"
      if "validateModified old (old\<lparr>currentStock := c, stockHistory := h\<rparr>)"
      using that by (rule stored_moved)
  qed
  with wf show ?thesis
    by (auto simp: removeStock_def Let_def split: sum.splits option.splits)
qed

lemma stored_modified:
  "stored old \<Longrightarrow> validateModified old p \<Longrightarrow> trimmed p \<Longrightarrow> stored (preSave p)"
  by (auto simp: stored_def validateNew_def validateModified_def preSave_def trimmed_def)

lemma trimmed_assign:
  "trimmed q \<Longrightarrow> (\<And>v q. trimmed q \<Longrightarrow> trimmed (f v q)) \<Longrightarrow> trimmed (assign x f q)"
  by (simp add: assign_def split: option.splits)

lemma trimmed_updateCategory: "trimmed q \<Longrightarrow> trimmed (updateCategory t c q)"
  by (simp add: updateCategory_def trimmed_def split: option.splits)

lemma trimmed_updateFields: "trimmed q \<Longrightarrow> trimmed (updateFields t body q)"
  unfolding updateFields_def
  by (intro trimmed_assign trimmed_updateCategory) (simp_all add: trimmed_def or_else_def)

lemma updateProduct_well_formed:
  "well_formed t \<Longrightarrow> well_formed (snd (updateProduct flt t bc body))"
proof -
  assume wf: "well_formed t"
  have "well_formed (t\<lparr>products := ps'\<rparr>)"
    if "findOne (products t) b = Some old"
      and "saveLoaded r (products t) old
             (updateFields t body (assign x (\<lambda>v q. q\<lparr>barcode := v\<rparr>) old)) = Inr ps'"
      and "x = None \<or> (\<exists>nb. x = Some (trim nb))"
    for b old r ps' x
  proof (rule saveLoaded_well_formed [OF wf that(1) _ that(2)])
    from wf findOne_in_set [OF that(1)] have old: "stored old" by (simp add: well_formed_def)
    then have "trimmed old" by (simp add: stored_def trimmed_def)
    with that(3) have "trimmed (assign x (\<lambda>v q. q\<lparr>barcode := v\<rparr>) old)"
      by (auto simp: assign_def trimmed_def)
    then have "trimmed (updateFields t body (assign x (\<lambda>v q. q\<lparr>barcode := v\<rparr>) old))"
      by (rule trimmed_updateFields)
    with old show "stored (preSave (updateFields t body (assign x (\<lambda>v q. q\<lparr>barcode := v\<rparr>) old)))"
      if "validateModified old (updateFields t body (assign x (\<lambda>v q. q\<lparr>barcode := v\<rparr>) old))"
      using that by (intro stored_modified)
  qed
  note save = this
  define x where "x = (case upd_newBarcode body of None \<Rightarrow> None
      | Some nb \<Rightarrow> if trim nb \<noteq> trim bc then Some (trim nb) else None)"
  have x: "x = None \<or> (\<exists>nb. x = Some (trim nb))"
    by (auto simp: x_def split: option.splits)
  have "updateProduct flt t bc body =
     (if flt ProductFindOne then (Reply 500 ''Failed to update product'' None, t)
      else case findOne (products t) (trim bc) of
        None \<Rightarrow> (Reply 404 ''Product not found'' None, t)
      | Some product \<Rightarrow>
          if x \<noteq> None \<and> findOne (products t) (the x) \<noteq> None
          then (Reply 400 ''A product with this barcode already exists'' None, t)
          else if (case upd_category body of Some (Some cid) \<Rightarrow> True | _ \<Rightarrow> False)
                  \<and> flt CategoryFindById
          then (Reply 500 ''Failed to update product'' None, t)
          else
            case saveLoaded (flt ProductSave) (products t) product
                   (updateFields t body (assign x (\<lambda>v q. q\<lparr>barcode := v\<rparr>) product)) of
              Inl e \<Rightarrow> (Reply 500 ''Failed to update product'' None, t)
            | Inr ps \<Rightarrow>
                (Reply 200 ''Product updated successfully''
                   (Some (preSave (updateFields t body (assign x (\<lambda>v q. q\<lparr>barcode := v\<rparr>) product)))),
                 t\<lparr>products := ps\<rparr>))"
    unfolding updateProduct_def Let_def x_def ..
  with wf save x show ?thesis
    by (auto split: sum.splits option.splits)
qed

lemma deleteProduct_well_formed:
  "well_formed t \<Longrightarrow> well_formed (snd (deleteProduct flt t bc))"
  using set_deleteOne
  by (fastforce simp: deleteProduct_def well_formed_def distinct_deleteOne split: option.splits)

lemma in_tenant_well_formed:
  assumes "all_well_formed w"
    and "\<And>t. well_formed t \<Longrightarrow> well_formed (snd (h t))"
  shows "all_well_formed (snd (in_tenant w slug h))"
  using assms by (simp add: all_well_formed_def in_tenant_def split_beta)

lemma set_products_well_formed:
  "all_well_formed w \<Longrightarrow> well_formed ((tenants w slug)\<lparr>products := ps\<rparr>) \<Longrightarrow>
     all_well_formed (set_products w slug ps)"
  by (simp add: all_well_formed_def set_products_def)

lemma transferProduct_well_formed:
  assumes inv: "all_well_formed w"
  shows "all_well_formed (snd (transferProduct flt u slug w bc target keep))"
proof -
  have copy: "all_well_formed (set_products w tg tps')"
    if "saveNew r (products (tenants w tg)) (transferredProduct u slug (products (tenants w tg)) src) = Inr tps'"
    for r tg src tps'
  proof (rule set_products_well_formed [OF inv])
    from inv have "well_formed (tenants w tg)" by (simp add: all_well_formed_def)
    with that show "well_formed ((tenants w tg)\<lparr>products := tps'\<rparr>)"
      unfolding transferredProduct_def by (rule saveNew_well_formed [rotated])
  qed
  have moved: "all_well_formed (set_products w' slug (deleteOne (products (tenants w slug)) b))"
    if "all_well_formed w'" "tenants w' slug = tenants w slug" for w' b
  proof (rule set_products_well_formed [OF that(1)])
    from inv have "well_formed (tenants w slug)" by (simp add: all_well_formed_def)
    with set_deleteOne [of "products (tenants w slug)" b]
    show "well_formed ((tenants w' slug)\<lparr>products := deleteOne (products (tenants w slug)) b\<rparr>)"
      by (auto simp: well_formed_def distinct_deleteOne)
  qed
  have other: "tenants (set_products w tg ps) slug = tenants w slug" if "tg \<noteq> slug" for tg ps
    using that by (simp add: set_products_def)
  show ?thesis
    using inv copy moved other
    by (auto simp: transferProduct_def Let_def split: sum.splits option.splits)
qed

lemma handle_well_formed: "all_well_formed w \<Longrightarrow> all_well_formed (snd (handle r w))"
  by (cases r)
    (simp_all add: in_tenant_well_formed createProduct_well_formed duplicateProduct_well_formed
      addStock_well_formed removeStock_well_formed updateProduct_well_formed
      deleteProduct_well_formed transferProduct_well_formed)

lemma run_well_formed: "all_well_formed w \<Longrightarrow> all_well_formed (run rs w)"
  by (induction rs arbitrary: w) (simp_all add: handle_well_formed)

lemma no_products_well_formed: "all_well_formed no_products"
  by (simp add: all_well_formed_def well_formed_def no_products_def empty_tenant_def)

section \<open>The stock counter and the ledger\<close>



section \<open>Removing stock\<close>



section \<open>Admission of accounts without company grants\<close>

text \<open>
  Claim C3 asks that an account that is no super admin and has an empty grant list is
  admitted to the default company only. The middleware admits such an account to every
  company: with the default company \<open>barcode\<close>, the header \<open>other-company\<close> passes the
  access check, a connection to \<open>other-company\<close> is opened and the request goes on.
\<close>

theorem companyMiddleware_admits_legacy_user_anywhere:
  "fst (companyMiddleware ''barcode'' False legacy_user (Some ''other-company'') empty_registry)
     = Inr (''other-company'', \<lparr>conn_id = 0, readyState = 1\<rparr>)"
  by (simp add: companyMiddleware_def legacy_user_def falsy_def hasAccess_def legacyAccess_def
      getCompanyConnection_def getCompanyConnection_begin_def getCompanyConnection_resume_def
      empty_registry_def Let_def)

text \<open>No header and no default make the middleware answer 403 to such an account.\<close>

lemma companyMiddleware_never_denies_legacy:
  "fst (companyMiddleware d refused (u\<lparr>companyAccess := Some []\<rparr>) header r)
     \<noteq> Inl (Reply 403 ''No access to this company'' None)"
  by (simp add: companyMiddleware_def legacyAccess_def Let_def split: prod.splits sum.splits)

section \<open>A transfer whose source cannot be deleted\<close>

text \<open>
  Claim C4 asks for a distinct outcome when the copy is stored and the deletion of the
  source then fails. The route has one \<open>catch\<close> block: the failed deletion is answered with
  500 "Failed to transfer product", the answer a failed save of the copy gets as well,
  while the product now exists in both companies.
\<close>

theorem transfer_delete_failure_answers_like_any_failure:
  "fst (transferProduct delete_rejects clerk ''a'' (worldA 10) ''B123'' (Some ''c'') False)
     = Reply 500 ''Failed to transfer product'' None
   \<and> fst (transferProduct save_rejects clerk ''a'' (worldA 10) ''B123'' (Some ''c'') False)
     = Reply 500 ''Failed to transfer product'' None
   \<and> map barcode (products (tenants (snd (transferProduct delete_rejects clerk ''a'' (worldA 10)
        ''B123'' (Some ''c'') False)) ''a'')) = [''B123'']
   \<and> map barcode (products (tenants (snd (transferProduct delete_rejects clerk ''a'' (worldA 10)
        ''B123'' (Some ''c'') False)) ''c'')) = [''B123'']"
proof -
  have 1: "transferProduct delete_rejects clerk ''a'' (worldA 10) ''B123'' (Some ''c'') False
     = (Reply 500 ''Failed to transfer product'' None,
        set_products (worldA 10) ''c'' [copy_of clerk ''a'' [] (widget 10)])"
    by (simp add: transfer_reaches_save [OF attempted_example(3) found_example]
        saveNew_copy stored_widget delete_rejects_def target_example Let_def)
  have 2: "transferProduct save_rejects clerk ''a'' (worldA 10) ''B123'' (Some ''c'') False
     = (Reply 500 ''Failed to transfer product'' None, worldA 10)"
    by (simp add: transfer_reaches_save [OF attempted_example(2) found_example]
        saveNew_copy stored_widget save_rejects_def target_example Let_def)
  show ?thesis
    by (simp add: 1 2) (simp add: worldA_def tenantA_def widget_def copy_of_def targetBarcode_def findOne_def)
qed

text \<open>
  Claim C4 as amended. In a transfer with \<open>keepOriginal\<close> false whose copy is stored and
  whose deletion of the source fails, both copies stay, one in each company, and the
  answer is the general error 500 "Failed to transfer product", the same answer as when
  the save of the copy fails.
\<close>

theorem transfer_delete_failure_leaves_two_copies:
  assumes attempted: "copy_attempted flt u slug w target"
    and found: "findOne (products (tenants w slug)) (trim bc) = Some src"
    and copied: "saveNew (flt ProductSave) (products (tenants w target))
                  (transferredProduct u slug (products (tenants w target)) src) = Inr tps'"
    and delete_fails: "flt ProductDelete"
  shows "transferProduct flt u slug w bc (Some target) False
           = (Reply 500 ''Failed to transfer product'' None, set_products w target tps')
       \<and> fst (transferProduct flt u slug w bc (Some target) False)
           = fst (transferProduct (flt(ProductSave := True)) u slug w bc (Some target) False)
       \<and> findOne (products (tenants (set_products w target tps') slug)) (trim bc) = Some src
       \<and> findOne (products (tenants (set_products w target tps') target))
            (barcode (transferredProduct u slug (products (tenants w target)) src))
           = Some (preSave (transferredProduct u slug (products (tenants w target)) src))"
proof -
  let ?tps = "products (tenants w target)"
  let ?t = "transferredProduct u slug ?tps src"
  have res: "transferProduct flt u slug w bc (Some target) False
           = (Reply 500 ''Failed to transfer product'' None, set_products w target tps')"
    by (simp add: transfer_reaches_save [OF attempted found] copied delete_fails Let_def)
  from attempted have attempted': "copy_attempted (flt(ProductSave := True)) u slug w target"
    by (simp add: copy_attempted_def)
  have "saveNew True ?tps ?t \<noteq> Inr tps'' " for tps''
    by (simp add: saveNew_def)
  then obtain e where "saveNew True ?tps ?t = Inl e"
    by (cases "saveNew True ?tps ?t") auto
  then have other: "transferProduct (flt(ProductSave := True)) u slug w bc (Some target) False
           = (Reply 500 ''Failed to transfer product'' None, w)"
    by (simp add: transfer_reaches_save [OF attempted' found])
  from attempted have ne: "target \<noteq> slug" by (simp add: copy_attempted_def)
  from saveNew_Inr [OF copied] have tps': "tps' = ?tps @ [preSave ?t]"
    and free: "findOne ?tps (barcode (preSave ?t)) = None" by simp_all
  have src_there: "findOne (products (tenants (set_products w target tps') slug)) (trim bc) = Some src"
    using found ne by simp
  have dst_there: "findOne (products (tenants (set_products w target tps') target)) (barcode ?t)
           = Some (preSave ?t)"
    using findOne_snoc_new [OF free] by (simp add: tps')
  from res other src_there dst_there show ?thesis by simp
qed

theorem transfer_delete_failure_leaves_two_copies_witness:
  "transferProduct delete_rejects clerk ''a'' (worldA 10) ''B123'' (Some ''c'') False
     = (Reply 500 ''Failed to transfer product'' None,
        set_products (worldA 10) ''c'' [copy_of clerk ''a'' [] (widget 10)])"
proof -
  have copied: "saveNew (delete_rejects ProductSave) (products (tenants (worldA 10) ''c''))
       (transferredProduct clerk ''a'' (products (tenants (worldA 10) ''c'')) (widget 10))
       = Inr [copy_of clerk ''a'' [] (widget 10)]"
    by (simp add: saveNew_copy stored_widget delete_rejects_def target_example)
  have delete_fails: "delete_rejects ProductDelete" by (simp add: delete_rejects_def)
  from transfer_delete_failure_leaves_two_copies [OF attempted_example(3) found_example copied delete_fails]
  show ?thesis by simp
qed

section \<open>A transfer whose copy cannot be stored\<close>

text \<open>
  Claim C5. Take a transfer request that passes the checks of the route and finds its
  source product. When the copy cannot be created in the target company, because the
  target cannot be reached or because the save of the copy fails for whatever reason, the
  answer is the error 500 "Failed to transfer product" and both company databases are
  exactly as before: nothing is deleted, and the source product is still found under its
  barcode with its stock counter and history.
\<close>

theorem transfer_failed_copy_keeps_source:
  assumes admitted: "transfer_admitted flt u slug w target"
    and found: "findOne (products (tenants w slug)) (trim bc) = Some src"
    and fails: "flt GetCompanyConnection \<or> flt TargetFindOne
        \<or> isl (saveNew (flt ProductSave) (products (tenants w target))
                  (transferredProduct u slug (products (tenants w target)) src))"
  shows "transferProduct flt u slug w bc (Some target) keepOriginal
           = (Reply 500 ''Failed to transfer product'' None, w)
       \<and> findOne (products (tenants (snd (transferProduct flt u slug w bc (Some target) keepOriginal)) slug))
             (trim bc) = Some src"
proof -
  have "transferProduct flt u slug w bc (Some target) keepOriginal
           = (Reply 500 ''Failed to transfer product'' None, w)"
  proof (cases "flt GetCompanyConnection \<or> flt TargetFindOne")
    case True
    with admitted found show ?thesis by (rule transfer_target_unreachable)
  next
    case False
    with admitted have attempted: "copy_attempted flt u slug w target"
      by (simp add: copy_attempted_iff)
    from False fails obtain e where
      "saveNew (flt ProductSave) (products (tenants w target))
         (transferredProduct u slug (products (tenants w target)) src) = Inl e"
      by (auto simp: isl_def)
    then show ?thesis
      by (simp add: transfer_reaches_save [OF attempted found])
  qed
  with found show ?thesis by simp
qed

theorem transfer_failed_copy_keeps_source_witness:
  "transferProduct save_rejects clerk ''a'' (worldA 10) ''B123'' (Some ''c'') False
     = (Reply 500 ''Failed to transfer product'' None, worldA 10)
   \<and> transferProduct unreachable clerk ''a'' (worldA 10) ''B123'' (Some ''c'') False
     = (Reply 500 ''Failed to transfer product'' None, worldA 10)
   \<and> map currentStock (products (tenants (worldA 10) ''a'')) = [10]"
proof -
  have "saveNew (save_rejects ProductSave) (products (tenants (worldA 10) ''c''))
       (transferredProduct clerk ''a'' (products (tenants (worldA 10) ''c'')) (widget 10))
       = Inl StorageFailure"
    by (simp add: saveNew_copy stored_widget save_rejects_def)
  then have fails: "save_rejects GetCompanyConnection \<or> save_rejects TargetFindOne
      \<or> isl (saveNew (save_rejects ProductSave) (products (tenants (worldA 10) ''c''))
           (transferredProduct clerk ''a'' (products (tenants (worldA 10) ''c'')) (widget 10)))"
    by simp
  have down: "unreachable GetCompanyConnection \<or> unreachable TargetFindOne
      \<or> isl (saveNew (unreachable ProductSave) (products (tenants (worldA 10) ''c''))
           (transferredProduct clerk ''a'' (products (tenants (worldA 10) ''c'')) (widget 10)))"
    by (simp add: unreachable_def)
  from transfer_failed_copy_keeps_source [OF admitted_example(1) found_example fails]
    transfer_failed_copy_keeps_source [OF admitted_example(2) found_example down]
  show ?thesis by (simp add: worldA_def tenantA_def widget_def)
qed

section \<open>Calls of getCompanyConnection that overlap\<close>




section \<open>Barcodes for copies\<close>

text \<open>
  Claim C7. The barcode computed for a copy is the first of the candidates \<open>base\<close>,
  \<open>base(1)\<close>, \<open>base(2)\<close>, ... that no stored product of the company has. An unused
  base is returned as it is; when the base and \<open>base(1)\<close> are both in use and \<open>base(2)\<close>
  is not, the result is \<open>base(2)\<close>. The computation only reads the collection: its result
  is a barcode and nothing else. The duplicate route, whose base is always in use by the
  original, starts at \<open>base(1)\<close> and computes the same barcode.
\<close>

theorem generateUniqueBarcode_first_free:
  "(\<exists>k. targetBarcode ps b = candidate b k \<and> first_free ps b k)
   \<and> (findOne ps b = None \<longrightarrow> targetBarcode ps b = b)
   \<and> (findOne ps b \<noteq> None \<and> findOne ps (b @ ''(1)'') \<noteq> None \<and> findOne ps (b @ ''(2)'') = None
        \<longrightarrow> targetBarcode ps b = b @ ''(2)'')
   \<and> (findOne ps b \<noteq> None \<longrightarrow> newBarcode ps b = targetBarcode ps b)"
proof (intro conjI impI)
  show "\<exists>k. targetBarcode ps b = candidate b k \<and> first_free ps b k"
    by (rule targetBarcode_first_free)
  show "findOne ps b = None \<Longrightarrow> targetBarcode ps b = b"
    by (simp add: targetBarcode_def)
  show "findOne ps b \<noteq> None \<Longrightarrow> newBarcode ps b = targetBarcode ps b"
    by (simp add: targetBarcode_def newBarcode_def)
next
  assume a: "findOne ps b \<noteq> None \<and> findOne ps (b @ ''(1)'') \<noteq> None \<and> findOne ps (b @ ''(2)'') = None"
  have d1: "decimal (Suc 0) = ''1''" and d2: "decimal 2 = ''2''"
    by code_simp+
  have c1: "candidate b 1 = b @ ''(1)''" and c2: "candidate b 2 = b @ ''(2)''"
    by (simp_all add: candidate_def suffixed_def d1 d2)
  have "first_free ps b 2"
    unfolding first_free_def using a c1 c2
    by (auto simp: candidate_def less_Suc_eq numeral_2_eq_2)
  moreover obtain k where k: "targetBarcode ps b = candidate b k" "first_free ps b k"
    using targetBarcode_first_free by blast
  ultimately have "k = 2" using first_free_unique by blast
  with k c2 show "targetBarcode ps b = b @ ''(2)''" by simp
qed

theorem generateUniqueBarcode_first_free_witness:
  "targetBarcode [named ''X'', named ''X(1)''] ''X'' = ''X(2)''
   \<and> targetBarcode [named ''Y''] ''X'' = ''X''
   \<and> newBarcode [named ''X'', named ''X(1)''] ''X'' = ''X(2)''"
proof -
  have used: "findOne [named ''X'', named ''X(1)''] ''X'' \<noteq> None
      \<and> findOne [named ''X'', named ''X(1)''] (''X'' @ ''(1)'') \<noteq> None
      \<and> findOne [named ''X'', named ''X(1)''] (''X'' @ ''(2)'') = None"
    by (simp add: findOne_def named_def)
  have unused: "findOne [named ''Y''] ''X'' = None"
    by (simp add: findOne_def named_def)
  from generateUniqueBarcode_first_free [of "[named ''X'', named ''X(1)'']" "''X''"] used
  have 1: "targetBarcode [named ''X'', named ''X(1)''] ''X'' = ''X(2)''"
    and 3: "newBarcode [named ''X'', named ''X(1)''] ''X'' = targetBarcode [named ''X'', named ''X(1)''] ''X''"
    by simp_all
  from generateUniqueBarcode_first_free [of "[named ''Y'']" "''X''"] unused
  have 2: "targetBarcode [named ''Y''] ''X'' = ''X''"
    by simp
  from 1 2 3 show ?thesis by simp
qed

section \<open>Registering a product\<close>



section \<open>A transfer that succeeds\<close>

text \<open>
  Claim C9. Take a transfer request that gets as far as saving the copy, for a stored source
  product in a company whose barcodes are unique, with the save and (when the original is
  not kept) the deletion succeeding. The answer is 200. The target company gains one
  product: it has the name, stock counter, note, prices, supplier, location, image and
  unit of the source, its category reference is null, and its history is the single \<open>add\<close>
  movement of the source's stock with the note "Transferred from" and the source company.
  Afterwards the source company no longer finds the product under its barcode if and only
  if \<open>keepOriginal\<close> is false.
\<close>

theorem transfer_success_copies_product:
  assumes attempted: "copy_attempted flt u slug w target"
    and found: "findOne (products (tenants w slug)) (trim bc) = Some src"
    and src: "stored src"
    and unique: "distinct (map barcode (products (tenants w slug)))"
    and save_ok: "\<not> flt ProductSave"
    and delete_ok: "keepOriginal \<or> \<not> flt ProductDelete"
  shows "let tps = products (tenants w target);
             dst = copy_of u slug tps src;
             (r, w') = transferProduct flt u slug w bc (Some target) keepOriginal
         in r = Reply 200 (if keepOriginal then ''Product copied to target company''
                           else ''Product transferred to target company'') (Some dst)
          \<and> products (tenants w' target) = tps @ [dst]
          \<and> name dst = name src \<and> currentStock dst = currentStock src
          \<and> pnote dst = pnote src \<and> buyingPrice dst = buyingPrice src
          \<and> sellingPrice dst = sellingPrice src \<and> boughtFrom dst = boughtFrom src
          \<and> sellLocation dst = sellLocation src \<and> imageUrl dst = imageUrl src
          \<and> unit dst = unit src
          \<and> category dst = None
          \<and> stockHistory dst =
               [\<lparr>quantity = currentStock src, mtype = Add,
                 mnote = ''Transferred from '' @ slug, supplier = [], location = [],
                 addedBy = user_id u,
                 addedByName = (if fullName u \<noteq> [] then fullName u else username u)\<rparr>]
          \<and> ((findOne (products (tenants w' slug)) (trim bc) = None) = (\<not> keepOriginal))"
proof -
  let ?tps = "products (tenants w target)"
  let ?dst = "copy_of u slug ?tps src"
  from attempted have ne: "target \<noteq> slug" by (simp add: copy_attempted_def)
  have fields: "name ?dst = name src \<and> currentStock ?dst = currentStock src
          \<and> pnote ?dst = pnote src \<and> buyingPrice ?dst = buyingPrice src
          \<and> sellingPrice ?dst = sellingPrice src \<and> boughtFrom ?dst = boughtFrom src
          \<and> sellLocation ?dst = sellLocation src \<and> imageUrl ?dst = imageUrl src
          \<and> unit ?dst = unit src \<and> category ?dst = None
          \<and> stockHistory ?dst =
               [\<lparr>quantity = currentStock src, mtype = Add,
                 mnote = ''Transferred from '' @ slug, supplier = [], location = [],
                 addedBy = user_id u,
                 addedByName = (if fullName u \<noteq> [] then fullName u else username u)\<rparr>]"
    by (simp add: copy_of_def)
  show ?thesis
  proof (cases keepOriginal)
    case True
    have "transferProduct flt u slug w bc (Some target) keepOriginal
        = (Reply 200 ''Product copied to target company'' (Some ?dst),
           set_products w target (?tps @ [?dst]))"
      using True save_ok
      by (simp add: transfer_reaches_save [OF attempted found] saveNew_copy_of [OF src]
          transferred_is_copy(2) [OF src] preSave_copy [OF src] Let_def)
    with True fields found ne show ?thesis by (simp add: Let_def)
  next
    case False
    with delete_ok have d: "\<not> flt ProductDelete" by simp
    have "transferProduct flt u slug w bc (Some target) keepOriginal
        = (Reply 200 ''Product transferred to target company'' (Some ?dst),
           set_products (set_products w target (?tps @ [?dst])) slug
             (deleteOne (products (tenants w slug)) (trim bc)))"
      using False save_ok d ne
      by (simp add: transfer_reaches_save [OF attempted found] saveNew_copy_of [OF src]
          transferred_is_copy(2) [OF src] preSave_copy [OF src] Let_def)
    with False fields ne findOne_deleteOne [OF unique, of "trim bc"] show ?thesis
      by (simp add: Let_def)
  qed
qed

theorem transfer_success_copies_product_witness:
  "(let (r, w') = transferProduct no_faults clerk ''a'' (worldA 10) ''B123'' (Some ''c'') False
    in r = Reply 200 ''Product transferred to target company'' (Some (copy_of clerk ''a'' [] (widget 10)))
     \<and> map (\<lambda>p. (barcode p, currentStock p, category p, map quantity (stockHistory p)))
          (products (tenants w' ''c'')) = [(''B123'', 10, None, [10])]
     \<and> findOne (products (tenants w' ''a'')) ''B123'' = None)
   \<and> (let (r, w') = transferProduct no_faults clerk ''a'' (worldA 10) ''B123'' (Some ''c'') True
    in r = Reply 200 ''Product copied to target company'' (Some (copy_of clerk ''a'' [] (widget 10)))
     \<and> findOne (products (tenants w' ''a'')) ''B123'' \<noteq> None)"
proof -
  have unique: "distinct (map barcode (products (tenants (worldA 10) ''a'')))"
    by (simp add: worldA_def tenantA_def)
  have src: "stored (widget 10)" by (simp add: stored_widget)
  have ok: "\<not> no_faults ProductSave" "\<not> no_faults ProductDelete" by (simp_all add: no_faults_def)
  have keep: "True \<or> \<not> no_faults ProductDelete" and move: "False \<or> \<not> no_faults ProductDelete"
    using ok by simp_all
  note a = transfer_success_copies_product [OF attempted_example(1) found_example src unique ok(1) move]
  note b = transfer_success_copies_product [OF attempted_example(1) found_example src unique ok(1) keep]
  have c: "copy_of clerk ''a'' [] (widget 10) = (widget 10)\<lparr>category := None, categoryName := [],
      stockHistory := [\<lparr>quantity = 10, mtype = Add, mnote = ''Transferred from a'',
          supplier = [], location = [], addedBy = 7, addedByName = ''Store Clerk''\<rparr>],
      createdBy := None, createdByName := None\<rparr>"
    by (simp add: copy_of_def targetBarcode_def findOne_def widget_def clerk_def)
  from a have 1: "fst (transferProduct no_faults clerk ''a'' (worldA 10) ''B123'' (Some ''c'') False)
      = Reply 200 ''Product transferred to target company'' (Some (copy_of clerk ''a'' [] (widget 10)))"
    and 2: "products (tenants (snd (transferProduct no_faults clerk ''a'' (worldA 10) ''B123'' (Some ''c'') False)) ''c'')
      = [copy_of clerk ''a'' [] (widget 10)]"
    and 3: "findOne (products (tenants (snd (transferProduct no_faults clerk ''a'' (worldA 10) ''B123'' (Some ''c'') False)) ''a'')) ''B123'' = None"
    by (simp_all add: target_example Let_def split_beta prod_eq_iff)
  from b have 4: "fst (transferProduct no_faults clerk ''a'' (worldA 10) ''B123'' (Some ''c'') True)
      = Reply 200 ''Product copied to target company'' (Some (copy_of clerk ''a'' [] (widget 10)))"
    and 5: "findOne (products (tenants (snd (transferProduct no_faults clerk ''a'' (worldA 10) ''B123'' (Some ''c'') True)) ''a'')) ''B123'' \<noteq> None"
    by (simp_all add: target_example Let_def split_beta prod_eq_iff)
  have 6: "(barcode (copy_of clerk ''a'' [] (widget 10)), currentStock (copy_of clerk ''a'' [] (widget 10)),
      category (copy_of clerk ''a'' [] (widget 10)),
      map quantity (stockHistory (copy_of clerk ''a'' [] (widget 10)))) = (''B123'', 10, None, [10])"
    by (simp add: c) (simp add: widget_def)
  from 5 6 show ?thesis
    by (simp add: Let_def split_beta 1 2 3 4)
qed

section \<open>Quantities of the movements\<close>

text \<open>
  Claim C10 asks that every movement ever written has a quantity above zero. The create
  and the duplicate route write their first movement only when the stock is above zero;
  the transfer route writes it always. A product registered without a quantity and then
  transferred arrives with an \<open>add\<close> movement of quantity 0.
\<close>

theorem transfer_of_empty_stock_records_zero_movement:
  "map (\<lambda>p. (barcode p, currentStock p, map (\<lambda>m. (mtype m, quantity m)) (stockHistory p)))
     (products (tenants
        (run [ReqCreate no_faults clerk ''a'' nothing_in_stock,
              ReqTransfer no_faults clerk ''a'' ''B123'' (Some ''c'') True] no_products) ''c''))
   = [(''B123'', 0, [(Add, 0)])]"
  by (simp add: in_tenant_def no_products_def createProduct_def newProduct_def nothing_in_stock_def falsy_def
      no_faults_def empty_tenant_def findOne_def or_zero_def or_else_def saveNew_def validateNew_def
      applySetters_def preSave_def trim_def is_space_def transferProduct_def clerk_def hasAccess_def
      transferredProduct_def targetBarcode_def set_products_def Let_def)

text \<open>
  The other routes keep to positive quantities: the create and the duplicate route write
  a first movement only for a stock above zero, and the add-stock and remove-stock routes
  answer 200 only for a quantity above zero.
\<close>

lemma guarded_routes_write_positive_quantities:
  "\<forall>m \<in> set (stockHistory (newProduct u t body)). 0 < quantity m"
  "\<forall>m \<in> set (stockHistory (duplicatedProduct u ps bc p)). 0 < quantity m"
  "status (fst (addStock flt u t bc stock)) = 200 \<Longrightarrow> 0 < the (stk_quantity stock)"
  "status (fst (removeStock flt u t bc stock)) = 200 \<Longrightarrow> 0 < the (stk_quantity stock)"
proof -
  show "\<forall>m \<in> set (stockHistory (newProduct u t body)). 0 < quantity m"
    by (simp add: newProduct_def applySetters_def Let_def)
  show "\<forall>m \<in> set (stockHistory (duplicatedProduct u ps bc p)). 0 < quantity m"
    by (simp add: duplicatedProduct_def applySetters_def)
  show "status (fst (addStock flt u t bc stock)) = 200 \<Longrightarrow> 0 < the (stk_quantity stock)"
    by (auto simp: addStock_def Let_def split: option.splits if_splits sum.splits)
  show "status (fst (removeStock flt u t bc stock)) = 200 \<Longrightarrow> 0 < the (stk_quantity stock)"
    by (auto simp: removeStock_def Let_def split: option.splits if_splits sum.splits)
qed

end
